theory Spec2Isabelle
  imports Complex_Main "HOL-Library.Char_ord" "HOL-Library.List_Lexorder"
begin

section \<open>Data model\<close>

text \<open>
  The inventory application keeps two SQLite tables, \<open>products\<close> and \<open>sales\<close>
  (\<open>SCHEMA_SQL\<close> in repository.py). \<open>SQLiteRepository\<close> runs the SQL statements,
  \<open>InventoryManager\<close> (services.py) validates input and calls the repository.

  Modelling decisions, all of them visible in the definitions below:
  \<^item> every raised exception is a value of \<open>error\<close>; an operation that writes returns
    its outcome together with the database it leaves behind;
  \<^item> a table is the list of its rows in rowid order; a database file on which the
    schema was never created has \<open>has_schema = False\<close>, and every statement on it
    fails (sqlite3.OperationalError, which \<open>connect\<close> turns into DatabaseError);
  \<^item> the columns declared REAL and Python's float values are exact rationals, and
    \<open>round(x, 2)\<close> is rounding to two decimals with ties to even. Binary
    floating point (representation error, infinities, NaN) is not modelled;
  \<^item> INTEGER columns and Python's int are \<open>int\<close>;
  \<^item> \<open>now_iso()\<close> reads the clock; its value is the argument \<open>now\<close> of the
    operations that call it.
\<close>

datatype error =
  ValidationError | NotFoundError | StockError | DataImportError | DatabaseError

text \<open>
  Modelled from the spec: the dataclass \<open>Product\<close> (models.py is not among the
  sources). Fields as section 3 of the specification and the constructor calls in
  services.py and repository.py give them; \<open>id\<close> is absent for a product that was
  not read from the database.
\<close>

record product =
  id_p :: "int option"
  sku :: string
  name :: string
  category :: string
  unit_price_ht :: rat
  vat_rate :: rat
  quantity :: int
  created_at :: string

text \<open>A row of table \<open>products\<close>; \<open>id\<close> is the INTEGER PRIMARY KEY.\<close>

record product_row =
  r_id :: int
  r_sku :: string
  r_name :: string
  r_category :: string
  r_unit_price_ht :: rat
  r_vat_rate :: rat
  r_quantity :: int
  r_created_at :: string

text \<open>A row of table \<open>sales\<close>.\<close>

record sale_row =
  s_id :: int
  s_product_id :: int
  s_sku :: string
  s_quantity :: int
  s_unit_price_ht :: rat
  s_vat_rate :: rat
  s_total_ht :: rat
  s_total_vat :: rat
  s_total_ttc :: rat
  s_sold_at :: string

text \<open>
  The database file. \<open>products_seq\<close> and \<open>sales_seq\<close> are the entries of
  \<open>sqlite_sequence\<close>: the largest rowid an AUTOINCREMENT table has ever used.
\<close>

record db =
  has_schema :: bool
  products :: "product_row list"
  sales :: "sale_row list"
  products_seq :: int
  sales_seq :: int


text \<open>The dictionary \<open>sell_product\<close> returns.\<close>

record receipt =
  rc_sku :: string
  rc_qty :: int
  rc_total_ht :: rat
  rc_total_vat :: rat
  rc_total_ttc :: rat

text \<open>The dictionary \<open>get_sales_stats\<close> returns.\<close>

record stats =
  nb_sales :: int
  total_qty :: int
  total_ht :: rat
  total_vat :: rat
  total_ttc :: rat

section \<open>The schema's constraints\<close>

text \<open>The CHECK constraints of table \<open>products\<close>.\<close>

definition product_check :: "product_row \<Rightarrow> bool" where
  "product_check r \<longleftrightarrow>
     0 \<le> r_unit_price_ht r \<and> (0 \<le> r_vat_rate r \<and> r_vat_rate r \<le> 1) \<and> 0 \<le> r_quantity r"

text \<open>The CHECK constraints of table \<open>sales\<close>.\<close>

definition sale_check :: "sale_row \<Rightarrow> bool" where
  "sale_check s \<longleftrightarrow>
     0 < s_quantity s \<and> 0 \<le> s_unit_price_ht s \<and> (0 \<le> s_vat_rate s \<and> s_vat_rate s \<le> 1) \<and>
     0 \<le> s_total_ht s \<and> 0 \<le> s_total_vat s \<and> 0 \<le> s_total_ttc s"

section \<open>SQLiteRepository\<close>





definition row_to_product :: "product_row \<Rightarrow> product" where
  "row_to_product r =
     \<lparr>id_p = Some (r_id r), sku = r_sku r, name = r_name r, category = r_category r,
      unit_price_ht = r_unit_price_ht r, vat_rate = r_vat_rate r, quantity = r_quantity r,
      created_at = r_created_at r\<rparr>"

text \<open>
  \<open>get_product_by_sku\<close>: SELECT ... WHERE sku = ?, \<open>fetchone\<close>; no row is
  \<open>None\<close>, not an exception.
\<close>

definition get_product_by_sku :: "db \<Rightarrow> string \<Rightarrow> error + product option" where
  "get_product_by_sku d s =
     (if \<not> has_schema d then Inl DatabaseError
      else Inr (map_option row_to_product (find (\<lambda>r. r_sku r = s) (products d))))"



text \<open>
  \<open>SQLiteRepository.delete_product\<close>: DELETE ... WHERE sku = ?, with foreign keys
  on: a deleted row that a sale references (\<open>ON DELETE RESTRICT\<close>) is
  sqlite3.IntegrityError, rollback and DatabaseError.
\<close>

definition repo_delete_product :: "db \<Rightarrow> string \<Rightarrow> (error + unit) \<times> db" where
  "repo_delete_product d s =
     (if \<not> has_schema d then (Inl DatabaseError, d)
      else if list_ex (\<lambda>r. r_sku r = s \<and> r_id r \<in> set (map s_product_id (sales d))) (products d)
      then (Inl DatabaseError, d)
      else (Inr (), d\<lparr>products := filter (\<lambda>r. r_sku r \<noteq> s) (products d)\<rparr>))"

text \<open>
  \<open>record_sale\<close>: in one transaction, UPDATE products SET quantity = quantity - ?
  WHERE id = ?, then INSERT INTO sales. Any sqlite3.Error (a CHECK of either table, the
  NOT NULL or the FOREIGN KEY of \<open>product_id\<close>) rolls both statements back and
  raises DatabaseError. \<open>product_id\<close> is \<open>p.id\<close>, which Python types as optional.
\<close>

definition decrement :: "int \<Rightarrow> product_row \<Rightarrow> product_row" where
  "decrement qty r = r\<lparr>r_quantity := r_quantity r - qty\<rparr>"

definition record_sale ::
  "db \<Rightarrow> string \<Rightarrow> int option \<Rightarrow> string \<Rightarrow> int \<Rightarrow> rat \<Rightarrow> rat \<Rightarrow> rat \<Rightarrow> rat \<Rightarrow> rat
     \<Rightarrow> (error + unit) \<times> db" where
  "record_sale d now product_id s qty price_ht vat t_ht t_vat t_ttc =
     (if \<not> has_schema d then (Inl DatabaseError, d)
      else
        (case product_id of
           None \<Rightarrow> (Inl DatabaseError, d)
         | Some i \<Rightarrow>
             if list_ex (\<lambda>r. r_id r = i \<and> \<not> product_check (decrement qty r)) (products d)
             then (Inl DatabaseError, d)
             else
               let row = \<lparr>s_id = sales_seq d + 1, s_product_id = i, s_sku = s,
                          s_quantity = qty, s_unit_price_ht = price_ht, s_vat_rate = vat,
                          s_total_ht = t_ht, s_total_vat = t_vat, s_total_ttc = t_ttc,
                          s_sold_at = now\<rparr>
               in if \<not> sale_check row \<or> i \<notin> set (map r_id (products d))
                  then (Inl DatabaseError, d)
                  else (Inr (),
                        d\<lparr>products := map (\<lambda>r. if r_id r = i then decrement qty r else r)
                                          (products d),
                          sales := sales d @ [row],
                          sales_seq := s_id row\<rparr>)))"

text \<open>
  \<open>get_sales_stats\<close>: COUNT and SUM over table \<open>sales\<close>; SUM over no rows is
  NULL, so the method returns literal zeros when the count is 0.
\<close>

definition get_sales_stats :: "db \<Rightarrow> error + stats" where
  "get_sales_stats d =
     (if \<not> has_schema d then Inl DatabaseError
      else if int (length (sales d)) > 0
      then Inr \<lparr>nb_sales = int (length (sales d)),
                total_qty = sum_list (map s_quantity (sales d)),
                total_ht = sum_list (map s_total_ht (sales d)),
                total_vat = sum_list (map s_total_vat (sales d)),
                total_ttc = sum_list (map s_total_ttc (sales d))\<rparr>
      else Inr \<lparr>nb_sales = 0, total_qty = 0, total_ht = 0, total_vat = 0, total_ttc = 0\<rparr>)"


section \<open>Validation\<close>








section \<open>Rounding\<close>

text \<open>
  Python's \<open>round(x, 2)\<close> on an exact value: the nearest multiple of 1/100, a tie
  going to the even one.
\<close>

definition round_half_even :: "rat \<Rightarrow> int" where
  "round_half_even y =
     (let f = \<lfloor>y\<rfloor>; d = y - of_int f
      in if d < 1 / 2 then f else if 1 / 2 < d then f + 1 else if even f then f else f + 1)"

definition round2 :: "rat \<Rightarrow> rat" where
  "round2 x = of_int (round_half_even (x * 100)) / 100"

section \<open>InventoryManager\<close>



text \<open>\<open>InventoryManager.delete_product\<close>.\<close>

definition delete_product :: "db \<Rightarrow> string \<Rightarrow> (error + unit) \<times> db" where
  "delete_product d s =
     (case get_product_by_sku d s of
        Inl e \<Rightarrow> (Inl e, d)
      | Inr None \<Rightarrow> (Inl NotFoundError, d)
      | Inr (Some p) \<Rightarrow> repo_delete_product d s)"

text \<open>\<open>sell_product\<close>: the three checks in the order of the source, then the totals.\<close>

definition sell_product :: "db \<Rightarrow> string \<Rightarrow> string \<Rightarrow> int \<Rightarrow> (error + receipt) \<times> db" where
  "sell_product d now s qty_to_sell =
     (case get_product_by_sku d s of
        Inl e \<Rightarrow> (Inl e, d)
      | Inr None \<Rightarrow> (Inl NotFoundError, d)
      | Inr (Some p) \<Rightarrow>
          if qty_to_sell \<le> 0 then (Inl ValidationError, d)
          else if quantity p < qty_to_sell then (Inl StockError, d)
          else
            let t_ht = round2 (unit_price_ht p * of_int qty_to_sell);
                t_vat = round2 (t_ht * vat_rate p);
                t_ttc = round2 (t_ht + t_vat)
            in (case record_sale d now (id_p p) s qty_to_sell (unit_price_ht p) (vat_rate p)
                       t_ht t_vat t_ttc of
                  (Inl e, d') \<Rightarrow> (Inl e, d')
                | (Inr _, d') \<Rightarrow>
                    (Inr \<lparr>rc_sku = s, rc_qty = qty_to_sell, rc_total_ht = t_ht,
                          rc_total_vat = t_vat, rc_total_ttc = t_ttc\<rparr>, d')))"

definition get_dashboard_data :: "db \<Rightarrow> error + stats" where
  "get_dashboard_data d = get_sales_stats d"




section \<open>Well-formed products and databases\<close>


text \<open>
  What the schema guarantees of table \<open>products\<close>: \<open>sku\<close> is UNIQUE, \<open>id\<close> is the
  primary key and never exceeds the AUTOINCREMENT counter, the CHECKs hold.
\<close>

definition products_ok :: "db \<Rightarrow> bool" where
  "products_ok d \<longleftrightarrow>
     distinct (map r_sku (products d)) \<and> distinct (map r_id (products d)) \<and>
     list_all (\<lambda>r. r_id r \<le> products_seq d \<and> product_check r) (products d)"

text \<open>
  What the schema guarantees of table \<open>sales\<close>: the primary key, the CHECKs, and
  the foreign key into \<open>products\<close>.
\<close>

definition sales_ok :: "db \<Rightarrow> bool" where
  "sales_ok d \<longleftrightarrow>
     distinct (map s_id (sales d)) \<and>
     list_all (\<lambda>s. s_id s \<le> sales_seq d \<and> sale_check s \<and>
                    s_product_id s \<in> set (map r_id (products d))) (sales d)"

definition db_ok :: "db \<Rightarrow> bool" where
  "db_ok d \<longleftrightarrow> products_ok d \<and> sales_ok d"

section \<open>Operations as data\<close>



section \<open>Sample data\<close>


definition sample_row :: product_row where
  "sample_row =
     \<lparr>r_id = 1, r_sku = ''SKU1'', r_name = ''Widget'', r_category = ''Tools'',
      r_unit_price_ht = 10, r_vat_rate = 1 / 5, r_quantity = 5,
      r_created_at = ''2024-01-01T09:00:00''\<rparr>"

definition sample_db :: db where
  "sample_db =
     \<lparr>has_schema = True, products = [sample_row], sales = [], products_seq = 1,
      sales_seq = 0\<rparr>"

definition sample_sale :: sale_row where
  "sample_sale =
     \<lparr>s_id = 1, s_product_id = 1, s_sku = ''SKU1'', s_quantity = 3, s_unit_price_ht = 10,
      s_vat_rate = 1 / 5, s_total_ht = 30, s_total_vat = 6, s_total_ttc = 36,
      s_sold_at = ''2024-01-02T10:30:00''\<rparr>"

definition sold_db :: db where
  "sold_db =
     \<lparr>has_schema = True, products = [sample_row\<lparr>r_quantity := 2\<rparr>], sales = [sample_sale],
      products_seq = 1, sales_seq = 1\<rparr>"


section \<open>Runs\<close>



section \<open>Lookup lemmas\<close>


lemma find_none_iff_sku:
  "find (\<lambda>r. r_sku r = s) ps = None \<longleftrightarrow> s \<notin> set (map r_sku ps)"
  by (induction ps) auto

lemma find_some_sku:
  "find (\<lambda>r. r_sku r = s) ps = Some r \<Longrightarrow> r \<in> set ps \<and> r_sku r = s"
  by (induction ps) (auto split: if_splits)

lemma find_distinct_sku:
  "distinct (map r_sku ps) \<Longrightarrow> r \<in> set ps \<Longrightarrow> find (\<lambda>x. r_sku x = r_sku r) ps = Some r"
  by (induction ps) (auto simp: rev_image_eqI)

section \<open>Round trip and uniqueness (C4, C5)\<close>






section \<open>Rounding and lookup facts\<close>



lemma get_stored_row:
  assumes "has_schema d" and "distinct (map r_sku (products d))" and "r \<in> set (products d)"
  shows "get_product_by_sku d (r_sku r) = Inr (Some (row_to_product r))"
  using assms by (simp add: get_product_by_sku_def find_distinct_sku)

lemma get_unknown_sku:
  assumes "has_schema d" and "s \<notin> set (map r_sku (products d))"
  shows "get_product_by_sku d s = Inr None"
  using assms find_none_iff_sku [of s "products d"] by (simp add: get_product_by_sku_def)


lemma same_sku_same_row:
  "distinct (map r_sku ps) \<Longrightarrow> r \<in> set ps \<Longrightarrow> x \<in> set ps \<Longrightarrow> r_sku x = r_sku r \<Longrightarrow> x = r"
  by (meson distinct_map inj_on_def)

section \<open>Selling (C1, C2, C3)\<close>




text \<open>
  C2. On a database that satisfies its schema, \<open>sell_product\<close> fails with NotFoundError
  for a sku that is not stored, with ValidationError for a stored sku and \<open>qty \<le> 0\<close>,
  and with StockError for a stored sku and a positive \<open>qty\<close> above the stored quantity;
  in each case the database returned is the one given, products and sales alike.
\<close>

theorem sell_product_rejected:
  assumes "has_schema d" and "db_ok d"
  shows "(s \<notin> set (map r_sku (products d)) \<longrightarrow>
            sell_product d now s qty = (Inl NotFoundError, d)) \<and>
         (r \<in> set (products d) \<and> r_sku r = s \<and> qty \<le> 0 \<longrightarrow>
            sell_product d now s qty = (Inl ValidationError, d)) \<and>
         (r \<in> set (products d) \<and> r_sku r = s \<and> 0 < qty \<and> r_quantity r < qty \<longrightarrow>
            sell_product d now s qty = (Inl StockError, d))"
proof -
  have skus: "distinct (map r_sku (products d))"
    using assms(2) by (simp add: db_ok_def products_ok_def)
  have unknown: "sell_product d now s qty = (Inl NotFoundError, d)"
    if "s \<notin> set (map r_sku (products d))"
    using get_unknown_sku [OF assms(1) that] by (simp add: sell_product_def)
  have known: "get_product_by_sku d s = Inr (Some (row_to_product r))"
    if "r \<in> set (products d)" "r_sku r = s"
    using get_stored_row [OF assms(1) skus that(1)] that(2) by simp
  have bad_qty: "sell_product d now s qty = (Inl ValidationError, d)"
    if "r \<in> set (products d)" "r_sku r = s" "qty \<le> 0"
    using known [OF that(1,2)] that(3) by (simp add: sell_product_def)
  have short: "sell_product d now s qty = (Inl StockError, d)"
    if "r \<in> set (products d)" "r_sku r = s" "0 < qty" "r_quantity r < qty"
    using known [OF that(1,2)] that(3,4) by (simp add: sell_product_def row_to_product_def)
  show ?thesis
    using unknown bad_qty short by blast
qed

theorem sell_product_rejected_witness:
  "has_schema sample_db \<and> db_ok sample_db \<and>
   sell_product sample_db ''2024-01-02T10:30:00'' ''SKU9'' 3 = (Inl NotFoundError, sample_db) \<and>
   sell_product sample_db ''2024-01-02T10:30:00'' ''SKU1'' 0 = (Inl ValidationError, sample_db) \<and>
   sell_product sample_db ''2024-01-02T10:30:00'' ''SKU1'' 6 = (Inl StockError, sample_db)"
proof -
  have h1: "has_schema sample_db"
    by (simp add: sample_db_def)
  have h2: "db_ok sample_db"
    by (simp add: db_ok_def products_ok_def sales_ok_def sample_db_def sample_row_def
        product_check_def)
  have m: "sample_row \<in> set (products sample_db)" "r_sku sample_row = ''SKU1''"
    "r_quantity sample_row < 6" "''SKU9'' \<notin> set (map r_sku (products sample_db))"
    by (simp_all add: sample_db_def sample_row_def)
  from sell_product_rejected [OF h1 h2, of "''SKU9''" "''2024-01-02T10:30:00''" 3 sample_row]
    sell_product_rejected [OF h1 h2, of "''SKU1''" "''2024-01-02T10:30:00''" 0 sample_row]
    sell_product_rejected [OF h1 h2, of "''SKU1''" "''2024-01-02T10:30:00''" 6 sample_row]
    h1 h2 m
  show ?thesis by simp
qed



section \<open>Adding a product (C6)\<close>








section \<open>Updating a product (C7)\<close>









section \<open>Deleting a product (C8)\<close>

lemma filter_other_skus:
  "distinct (map r_sku ps) \<Longrightarrow> r \<in> set ps \<Longrightarrow>
   filter (\<lambda>x. r_sku x \<noteq> r_sku r) ps = remove1 r ps"
proof (induction ps)
  case Nil
  then show ?case by simp
next
  case (Cons a ps)
  show ?case
  proof (cases "a = r")
    case True
    have "\<forall>x \<in> set ps. r_sku x \<noteq> r_sku r"
      using Cons.prems(1) True by (auto simp: image_iff)
    then have "filter (\<lambda>x. r_sku x \<noteq> r_sku r) ps = ps"
      by (simp add: filter_id_conv)
    with True show ?thesis by simp
  next
    case False
    then have "r \<in> set ps" and "r_sku a \<noteq> r_sku r"
      using Cons.prems by (auto simp: image_iff)
    with Cons False show ?thesis by simp
  qed
qed

text \<open>
  C8. On a database that satisfies its schema, \<open>delete_product\<close> fails with
  NotFoundError for a sku that is not stored; for a stored product that some sale
  references it fails with DatabaseError and returns the database as it was (the
  product and its sales remain); for a stored product without sales it removes exactly
  that row, after which the sku is no longer found.
\<close>

theorem delete_product_contract:
  assumes "has_schema d" and "db_ok d"
  shows "(s \<notin> set (map r_sku (products d)) \<longrightarrow>
            delete_product d s = (Inl NotFoundError, d)) \<and>
         (r \<in> set (products d) \<and> r_sku r = s \<and>
          r_id r \<in> set (map s_product_id (sales d)) \<longrightarrow>
            delete_product d s = (Inl DatabaseError, d)) \<and>
         (r \<in> set (products d) \<and> r_sku r = s \<and>
          r_id r \<notin> set (map s_product_id (sales d)) \<longrightarrow>
            delete_product d s = (Inr (), d\<lparr>products := remove1 r (products d)\<rparr>) \<and>
            get_product_by_sku (d\<lparr>products := remove1 r (products d)\<rparr>) s = Inr None)"
proof (intro conjI impI)
  assume "s \<notin> set (map r_sku (products d))"
  then show "delete_product d s = (Inl NotFoundError, d)"
    using get_unknown_sku [OF assms(1)] by (simp add: delete_product_def)
next
  assume a: "r \<in> set (products d) \<and> r_sku r = s \<and> r_id r \<in> set (map s_product_id (sales d))"
  have skus: "distinct (map r_sku (products d))"
    using assms(2) by (simp add: db_ok_def products_ok_def)
  have got: "get_product_by_sku d s = Inr (Some (row_to_product r))"
    using get_stored_row [OF assms(1) skus] a by auto
  have "list_ex (\<lambda>x. r_sku x = s \<and> r_id x \<in> set (map s_product_id (sales d))) (products d)"
    using a unfolding list_ex_iff by blast
  then show "delete_product d s = (Inl DatabaseError, d)"
    using assms(1) by (simp add: delete_product_def got repo_delete_product_def)
next
  assume a: "r \<in> set (products d) \<and> r_sku r = s \<and> r_id r \<notin> set (map s_product_id (sales d))"
  have skus: "distinct (map r_sku (products d))"
    using assms(2) by (simp add: db_ok_def products_ok_def)
  have got: "get_product_by_sku d s = Inr (Some (row_to_product r))"
    using get_stored_row [OF assms(1) skus] a by auto
  have only: "x = r" if "x \<in> set (products d)" "r_sku x = s" for x
    using same_sku_same_row [OF skus _ that(1)] a that(2) by auto
  have none: "\<not> list_ex (\<lambda>x. r_sku x = s \<and> r_id x \<in> set (map s_product_id (sales d)))
                  (products d)"
    unfolding list_ex_iff using only a by blast
  have flt: "filter (\<lambda>x. r_sku x \<noteq> s) (products d) = remove1 r (products d)"
    using filter_other_skus [OF skus] a by auto
  show "delete_product d s = (Inr (), d\<lparr>products := remove1 r (products d)\<rparr>)"
    using assms(1) none by (simp add: delete_product_def got repo_delete_product_def flt)
  have "s \<notin> set (map r_sku (filter (\<lambda>x. r_sku x \<noteq> s) (products d)))"
    by auto
  then have "s \<notin> set (map r_sku (remove1 r (products d)))"
    unfolding flt .
  then show "get_product_by_sku (d\<lparr>products := remove1 r (products d)\<rparr>) s = Inr None"
    using assms(1) get_unknown_sku [of "d\<lparr>products := remove1 r (products d)\<rparr>" s] by simp
qed

theorem delete_product_contract_witness:
  "has_schema sample_db \<and> db_ok sample_db \<and> has_schema sold_db \<and> db_ok sold_db \<and>
   delete_product sample_db ''SKU9'' = (Inl NotFoundError, sample_db) \<and>
   delete_product sold_db ''SKU1'' = (Inl DatabaseError, sold_db) \<and>
   delete_product sample_db ''SKU1'' = (Inr (), sample_db\<lparr>products := []\<rparr>) \<and>
   get_product_by_sku (sample_db\<lparr>products := []\<rparr>) ''SKU1'' = Inr None"
proof -
  have h1: "has_schema sample_db" and h2: "db_ok sample_db"
    by (simp_all add: db_ok_def products_ok_def sales_ok_def sample_db_def sample_row_def
        product_check_def)
  have g1: "has_schema sold_db" and g2: "db_ok sold_db"
    by (simp_all add: db_ok_def products_ok_def sales_ok_def sold_db_def sample_row_def
        sample_sale_def product_check_def sale_check_def)
  have k1: "''SKU9'' \<notin> set (map r_sku (products sample_db))"
    by (simp add: sample_db_def sample_row_def)
  have k2: "sample_row\<lparr>r_quantity := 2\<rparr> \<in> set (products sold_db) \<and>
      r_sku (sample_row\<lparr>r_quantity := 2\<rparr>) = ''SKU1'' \<and>
      r_id (sample_row\<lparr>r_quantity := 2\<rparr>) \<in> set (map s_product_id (sales sold_db))"
    by (simp add: sold_db_def sample_row_def sample_sale_def)
  have k3: "sample_row \<in> set (products sample_db) \<and> r_sku sample_row = ''SKU1'' \<and>
      r_id sample_row \<notin> set (map s_product_id (sales sample_db))"
    by (simp add: sample_db_def sample_row_def)
  have rm: "remove1 sample_row (products sample_db) = []"
    by (simp add: sample_db_def)
  from delete_product_contract [OF h1 h2, where s = "''SKU9''"] k1
  have a: "delete_product sample_db ''SKU9'' = (Inl NotFoundError, sample_db)"
    by blast
  from delete_product_contract [OF g1 g2, where s = "''SKU1''"
      and r = "sample_row\<lparr>r_quantity := 2\<rparr>"] k2
  have b: "delete_product sold_db ''SKU1'' = (Inl DatabaseError, sold_db)"
    by blast
  from delete_product_contract [OF h1 h2, where s = "''SKU1''" and r = sample_row] k3
  have c: "delete_product sample_db ''SKU1'' = (Inr (), sample_db\<lparr>products := []\<rparr>) \<and>
     get_product_by_sku (sample_db\<lparr>products := []\<rparr>) ''SKU1'' = Inr None"
    unfolding rm by blast
  from h1 h2 g1 g2 a b c show ?thesis
    by simp
qed

section \<open>Dashboard (C9)\<close>



section \<open>The schema is an invariant (C10)\<close>

























end
